theory Spec2Isabelle
  imports Main "HOL-Library.Word"
begin

unbundle bit_operations_syntax

section \<open>Python values shared by the modules\<close>

text \<open>
  Exceptions are values. Only the classes that the handlers of the program tell apart
  are kept apart; \<open>str_of\<close> is Python's \<open>str(e)\<close>.
\<close>

datatype py_error =
    ValueError string
  | TypeError string
  | OverflowError string
  | StructError string
  | IndexError string
  | OtherError string

fun str_of :: "py_error \<Rightarrow> string" where
  "str_of (ValueError m) = m"
| "str_of (TypeError m) = m"
| "str_of (OverflowError m) = m"
| "str_of (StructError m) = m"
| "str_of (IndexError m) = m"
| "str_of (OtherError m) = m"

type_synonym byte = "8 word"
type_synonym u32 = "32 word"

section \<open>Library functions used by \<open>steam_client.py\<close>\<close>

subsection \<open>\<open>base64.b64decode\<close>\<close>

text \<open>
  The decoder of the standard library in its default, non-validating mode: characters
  outside the alphabet are skipped, a pad character that completes a quad ends the input,
  and data characters left over at the end are an error (\<open>None\<close>). A \<open>str\<close> argument
  that is not ASCII is an error as well.
\<close>

definition b64_value :: "char \<Rightarrow> nat option" where
  "b64_value c =
     (let n = (of_char c :: nat) in
      if 65 \<le> n \<and> n \<le> 90 then Some (n - 65)
      else if 97 \<le> n \<and> n \<le> 122 then Some (n - 71)
      else if 48 \<le> n \<and> n \<le> 57 then Some (n + 4)
      else if n = 43 then Some 62
      else if n = 47 then Some 63
      else None)"

fun a2b_base64 :: "nat \<Rightarrow> nat \<Rightarrow> nat \<Rightarrow> char list \<Rightarrow> byte list option" where
  "a2b_base64 quad_pos leftchar pads [] = (if quad_pos \<noteq> 0 then None else Some [])"
| "a2b_base64 quad_pos leftchar pads (c # cs) =
     (if c = CHR ''='' then
        (if quad_pos \<ge> 2 \<and> quad_pos + (pads + 1) \<ge> 4 then Some []
         else a2b_base64 quad_pos leftchar (if quad_pos \<ge> 2 then pads + 1 else pads) cs)
      else case b64_value c of
        None \<Rightarrow> a2b_base64 quad_pos leftchar pads cs
      | Some v \<Rightarrow>
          (if quad_pos = 0 then a2b_base64 1 v 0 cs
           else if quad_pos = 1 then
             map_option ((#) (of_nat (leftchar * 4 + v div 16))) (a2b_base64 2 (v mod 16) 0 cs)
           else if quad_pos = 2 then
             map_option ((#) (of_nat (leftchar * 16 + v div 4))) (a2b_base64 3 (v mod 4) 0 cs)
           else
             map_option ((#) (of_nat (leftchar * 64 + v))) (a2b_base64 0 0 0 cs)))"

definition b64decode :: "string \<Rightarrow> byte list option" where
  "b64decode s =
     (if \<exists>c \<in> set s. (of_char c :: nat) \<ge> 128 then None else a2b_base64 0 0 0 s)"

subsection \<open>\<open>hashlib.sha1\<close> and \<open>hmac.new(key, msg, hashlib.sha1).digest()\<close>\<close>

text \<open>SHA-1 as in FIPS 180-4 and HMAC as in RFC 2104, on byte lists.\<close>

definition rotl32 :: "nat \<Rightarrow> u32 \<Rightarrow> u32" where
  "rotl32 n w = push_bit n w OR drop_bit (32 - n) w"

fun be_words :: "byte list \<Rightarrow> u32 list" where
  "be_words (a # b # c # d # rest) =
     (push_bit 24 (ucast a) OR push_bit 16 (ucast b) OR push_bit 8 (ucast c) OR ucast d)
       # be_words rest"
| "be_words _ = []"

fun word_bytes :: "u32 \<Rightarrow> byte list" where
  "word_bytes w = [ucast (drop_bit 24 w), ucast (drop_bit 16 w), ucast (drop_bit 8 w), ucast w]"

definition sha1_pad :: "byte list \<Rightarrow> byte list" where
  "sha1_pad m = m @ [0x80] @ replicate ((119 - length m mod 64) mod 64) 0
     @ replicate 4 0 @ word_bytes (of_nat (8 * length m))"

fun sha1_schedule :: "nat \<Rightarrow> u32 list \<Rightarrow> u32 list" where
  "sha1_schedule 0 ws = ws"
| "sha1_schedule (Suc n) ws =
     sha1_schedule n (rotl32 1 (ws ! 2 XOR ws ! 7 XOR ws ! 13 XOR ws ! 15) # ws)"

definition sha1_f :: "nat \<Rightarrow> u32 \<Rightarrow> u32 \<Rightarrow> u32 \<Rightarrow> u32" where
  "sha1_f t b c d =
     (if t < 20 then (b AND c) OR (NOT b AND d)
      else if t < 40 then b XOR c XOR d
      else if t < 60 then (b AND c) OR (b AND d) OR (c AND d)
      else b XOR c XOR d)"

definition sha1_k :: "nat \<Rightarrow> u32" where
  "sha1_k t = (if t < 20 then 0x5A827999 else if t < 40 then 0x6ED9EBA1
               else if t < 60 then 0x8F1BBCDC else 0xCA62C1D6)"

type_synonym sha1_state = "u32 \<times> u32 \<times> u32 \<times> u32 \<times> u32"

fun sha1_rounds :: "nat \<Rightarrow> sha1_state \<Rightarrow> u32 list \<Rightarrow> sha1_state" where
  "sha1_rounds t st [] = st"
| "sha1_rounds t (a, b, c, d, e) (w # ws) =
     sha1_rounds (t + 1)
       (rotl32 5 a + sha1_f t b c d + e + sha1_k t + w, a, rotl32 30 b, c, d) ws"

fun sha1_add :: "sha1_state \<Rightarrow> sha1_state \<Rightarrow> sha1_state" where
  "sha1_add (a, b, c, d, e) (a', b', c', d', e') = (a + a', b + b', c + c', d + d', e + e')"

definition sha1_block :: "sha1_state \<Rightarrow> byte list \<Rightarrow> sha1_state" where
  "sha1_block h blk =
     sha1_add h (sha1_rounds 0 h (rev (sha1_schedule 64 (rev (be_words blk)))))"

definition sha1_init :: sha1_state where
  "sha1_init = (0x67452301, 0xEFCDAB89, 0x98BADCFE, 0x10325476, 0xC3D2E1F0)"

fun sha1_blocks :: "nat \<Rightarrow> sha1_state \<Rightarrow> byte list \<Rightarrow> sha1_state" where
  "sha1_blocks 0 h p = h"
| "sha1_blocks (Suc n) h p = sha1_blocks n (sha1_block h (take 64 p)) (drop 64 p)"

fun sha1_out :: "sha1_state \<Rightarrow> byte list" where
  "sha1_out (a, b, c, d, e) =
     word_bytes a @ word_bytes b @ word_bytes c @ word_bytes d @ word_bytes e"

definition sha1 :: "byte list \<Rightarrow> byte list" where
  "sha1 m = (let p = sha1_pad m in sha1_out (sha1_blocks (length p div 64) sha1_init p))"

definition hmac_sha1 :: "byte list \<Rightarrow> byte list \<Rightarrow> byte list" where
  "hmac_sha1 key msg =
     (let k0 = (if length key > 64 then sha1 key else key);
          k = k0 @ replicate (64 - length k0) 0
      in sha1 (map (\<lambda>b. b XOR 0x5C) k @ sha1 (map (\<lambda>b. b XOR 0x36) k @ msg)))"

subsection \<open>\<open>struct.pack(">Q", n)\<close>, \<open>struct.unpack(">I", bs)\<close> and \<open>f"{n:05d}"\<close>\<close>

definition struct_pack_Q :: "int \<Rightarrow> py_error + byte list" where
  "struct_pack_Q n =
     (if 0 \<le> n \<and> n < 2 ^ 64
      then Inr (map (\<lambda>k. word_of_int (drop_bit (8 * k) n)) [7, 6, 5, 4, 3, 2, 1, 0])
      else Inl (StructError ''argument out of range''))"

definition struct_unpack_I :: "byte list \<Rightarrow> py_error + int" where
  "struct_unpack_I bs =
     (if length bs = 4 then Inr (foldl (\<lambda>acc b. push_bit 8 acc OR uint b) 0 bs)
      else Inl (StructError ''unpack requires a buffer of 4 bytes''))"

definition digit_char :: "nat \<Rightarrow> char" where
  "digit_char d = ''0123456789'' ! d"

function decimal :: "nat \<Rightarrow> string" where
  "decimal n = (if n < 10 then [digit_char n] else decimal (n div 10) @ [digit_char (n mod 10)])"
  by pat_completeness auto
termination
  by (relation "measure id") auto

declare decimal.simps [simp del]

text \<open>\<open>f"{n:05d}"\<close>: a minus sign counts towards the width of 5.\<close>

definition format_05d :: "int \<Rightarrow> string" where
  "format_05d n =
     (if n < 0 then CHR ''-'' # replicate (4 - length (decimal (nat (- n)))) CHR ''0'' @ decimal (nat (- n))
      else replicate (5 - length (decimal (nat n))) CHR ''0'' @ decimal (nat n))"

section \<open>\<open>SteamAuthenticator.generate_auth_code\<close> (steam\_client.py)\<close>

text \<open>
  The argument \<open>timestamp\<close> is the value after the default \<open>int(time.time())\<close> has been
  filled in. The statements follow the source in order: the counter, the decoding of the
  secret (any exception is re-raised as \<open>ValueError\<close>), the packing of the counter, the
  digest, the dynamic truncation and the formatting.
\<close>

text \<open>
  The \<open>ValueError\<close> raised for a secret that does not decode. Its message in the source is
  a Russian text followed by the text of the decoding error; nothing reads it.
\<close>

definition invalid_secret :: py_error where
  "invalid_secret = ValueError ''invalid shared_secret''"

definition truncate_digest :: "byte list \<Rightarrow> py_error + string" where
  "truncate_digest hmac_digest =
     (if hmac_digest = [] then Inl (IndexError ''index out of range'')
      else
        let offset = unat (last hmac_digest AND 0x0F);
            code_bytes = take 4 (drop offset hmac_digest)
        in case struct_unpack_I code_bytes of
             Inl e \<Rightarrow> Inl e
           | Inr v \<Rightarrow>
               let code_int = v AND 0x7FFFFFFF;
                   auth_code = code_int mod 1000000
               in Inr (format_05d auth_code))"

definition generate_auth_code :: "string \<Rightarrow> int \<Rightarrow> py_error + string" where
  "generate_auth_code shared_secret timestamp =
     (let time_buffer = timestamp div 30 in
      case b64decode shared_secret of
        None \<Rightarrow> Inl invalid_secret
      | Some secret_bytes \<Rightarrow>
          (case struct_pack_Q time_buffer of
             Inl e \<Rightarrow> Inl e
           | Inr time_bytes \<Rightarrow> truncate_digest (hmac_sha1 secret_bytes time_bytes)))"

subsection \<open>The derivation of the code as the specification words it\<close>

text \<open>
  A second definition, written from the specification's sentence and not from the source:
  the counter \<open>floor(unixtime / 30)\<close> as 8 big-endian bytes; HMAC-SHA1 of the decoded
  secret and the counter; the offset is the low nibble of the last byte; the four bytes at
  the offset read as a big-endian number; the sign bit dropped; the rest modulo 1,000,000;
  zero-padded to at least five digits. An undecodable secret is the invalid-secret error.
\<close>

definition spec_counter_bytes :: "int \<Rightarrow> byte list" where
  "spec_counter_bytes c = map (\<lambda>i. word_of_int ((c div 256 ^ (7 - i)) mod 256)) [0..<8]"

definition spec_dynamic_truncate :: "byte list \<Rightarrow> int" where
  "spec_dynamic_truncate digest =
     (let offset = unat (last digest) mod 16;
          p = (\<Sum>i<4. uint (digest ! (offset + i)) * 256 ^ (3 - i))
      in p mod 2 ^ 31)"

definition spec_zero_pad :: "nat \<Rightarrow> string \<Rightarrow> string" where
  "spec_zero_pad w s = replicate (w - length s) CHR ''0'' @ s"

definition spec_generate :: "string \<Rightarrow> int \<Rightarrow> py_error + string" where
  "spec_generate secret unixtime =
     (case b64decode secret of
        None \<Rightarrow> Inl invalid_secret
      | Some key \<Rightarrow>
          let counter = spec_counter_bytes (unixtime div 30);
              digest = hmac_sha1 key counter;
              v = spec_dynamic_truncate digest mod 1000000
          in Inr (spec_zero_pad 5 (decimal (nat v))))"

section \<open>\<open>datetime\<close> values used by \<open>scheduler.py\<close>\<close>

text \<open>
  A naive \<open>datetime\<close> is the number of microseconds since 0001-01-01T00:00:00
  (\<open>datetime.min\<close>); an aware one carries its UTC offset in microseconds as well.
  \<open>datetime.now()\<close> is naive. Comparing a naive with an aware value raises \<open>TypeError\<close>.
\<close>

datatype datetime = Naive int | Aware int int

definition datetime_max :: int where
  "datetime_max = 3652059 * 86400000000 - 1"

text \<open>\<open>timedelta(hours=h)\<close>: the day count must stay within 999999999 days.\<close>

definition timedelta_hours :: "int \<Rightarrow> py_error + int" where
  "timedelta_hours h =
     (if - 999999999 \<le> h div 24 \<and> h div 24 \<le> 999999999 then Inr (h * 3600000000)
      else Inl (OverflowError ''days out of range''))"

text \<open>\<open>now - delta\<close> for a naive \<open>now\<close>: the result must be a representable date.\<close>

definition datetime_sub :: "int \<Rightarrow> int \<Rightarrow> py_error + int" where
  "datetime_sub now delta =
     (if 0 \<le> now - delta \<and> now - delta \<le> datetime_max then Inr (now - delta)
      else Inl (OverflowError ''date value out of range''))"

text \<open>\<open>a > b\<close> where \<open>b\<close> is naive.\<close>

fun datetime_gt_naive :: "datetime \<Rightarrow> int \<Rightarrow> py_error + bool" where
  "datetime_gt_naive (Naive a) b = Inr (a > b)"
| "datetime_gt_naive (Aware a off) b =
     Inl (TypeError ''cannot compare offset-naive and offset-aware datetimes'')"

subsection \<open>\<open>datetime.fromisoformat\<close> on the strings \<open>isoformat()\<close> writes\<close>

text \<open>
  The library function is modelled on the shapes that \<open>datetime.isoformat()\<close> produces,
  \<open>YYYY-MM-DDTHH:MM:SS\<close> with an optional \<open>.ffffff\<close> and an optional offset \<open>+HH:MM\<close> or
  \<open>-HH:MM\<close>; every other string is a \<open>ValueError\<close> here. The functions of the program
  below take the parser as an argument, so what is proved of them holds for every
  behaviour of the library function.
\<close>

definition digit_value :: "char \<Rightarrow> nat option" where
  "digit_value c =
     (let n = (of_char c :: nat) in if 48 \<le> n \<and> n \<le> 57 then Some (n - 48) else None)"

fun digits_value :: "nat \<Rightarrow> string \<Rightarrow> nat option" where
  "digits_value acc [] = Some acc"
| "digits_value acc (c # cs) =
     (case digit_value c of None \<Rightarrow> None | Some d \<Rightarrow> digits_value (10 * acc + d) cs)"

definition is_leap :: "nat \<Rightarrow> bool" where
  "is_leap y = (y mod 4 = 0 \<and> (y mod 100 \<noteq> 0 \<or> y mod 400 = 0))"

definition days_in_month :: "nat \<Rightarrow> nat \<Rightarrow> nat" where
  "days_in_month y m =
     (if m = 2 then (if is_leap y then 29 else 28)
      else if m = 4 \<or> m = 6 \<or> m = 9 \<or> m = 11 then 30 else 31)"

definition days_before_year :: "nat \<Rightarrow> nat" where
  "days_before_year y = (y - 1) * 365 + (y - 1) div 4 - (y - 1) div 100 + (y - 1) div 400"

definition days_before_month :: "nat \<Rightarrow> nat \<Rightarrow> nat" where
  "days_before_month y m = sum_list (map (days_in_month y) [1..<m])"

definition invalid_isoformat :: py_error where
  "invalid_isoformat = ValueError ''Invalid isoformat string''"

definition parse_date_time :: "string \<Rightarrow> int option" where
  "parse_date_time s =
     (if length s \<noteq> 19 \<and> length s \<noteq> 26 then None
      else if s ! 4 \<noteq> CHR ''-'' \<or> s ! 7 \<noteq> CHR ''-'' \<or> s ! 13 \<noteq> CHR '':'' \<or> s ! 16 \<noteq> CHR '':''
        \<or> (length s = 26 \<and> s ! 19 \<noteq> CHR ''.'') then None
      else case (digits_value 0 (take 4 s), digits_value 0 (take 2 (drop 5 s)),
                 digits_value 0 (take 2 (drop 8 s)), digits_value 0 (take 2 (drop 11 s)),
                 digits_value 0 (take 2 (drop 14 s)), digits_value 0 (take 2 (drop 17 s)),
                 digits_value 0 (drop 20 s)) of
        (Some y, Some m, Some d, Some hh, Some mm, Some ss, Some us) \<Rightarrow>
          if 1 \<le> y \<and> 1 \<le> m \<and> m \<le> 12 \<and> 1 \<le> d \<and> d \<le> days_in_month y m
             \<and> hh < 24 \<and> mm < 60 \<and> ss < 60
          then Some (int ((((days_before_year y + days_before_month y m + d - 1) * 24 + hh) * 60
                            + mm) * 60 + ss) * 1000000 + int us)
          else None
      | _ \<Rightarrow> None)"

definition parse_offset :: "string \<Rightarrow> int option" where
  "parse_offset s =
     (if length s \<noteq> 6 \<or> (s ! 0 \<noteq> CHR ''+'' \<and> s ! 0 \<noteq> CHR ''-'') \<or> s ! 3 \<noteq> CHR '':'' then None
      else case (digits_value 0 (take 2 (drop 1 s)), digits_value 0 (drop 4 s)) of
        (Some hh, Some mm) \<Rightarrow>
          if hh < 24 \<and> mm < 60
          then Some ((if s ! 0 = CHR ''-'' then - 1 else 1) * int (hh * 60 + mm) * 60000000)
          else None
      | _ \<Rightarrow> None)"

definition fromisoformat :: "string \<Rightarrow> py_error + datetime" where
  "fromisoformat s =
     (case parse_date_time s of
        Some t \<Rightarrow> Inr (Naive t)
      | None \<Rightarrow>
          (if length s < 6 then Inl invalid_isoformat
           else case (parse_date_time (take (length s - 6) s), parse_offset (drop (length s - 6) s)) of
             (Some t, Some off) \<Rightarrow> Inr (Aware t off)
           | _ \<Rightarrow> Inl invalid_isoformat))"

section \<open>\<open>PasswordChangeRecord\<close> and \<open>PasswordHistory\<close> (scheduler.py)\<close>

record PasswordChangeRecord =
  timestamp :: string
  old_password_hash :: string
  new_password_hash :: string
  success :: bool
  error_message :: "string option"

subsection \<open>The history file\<close>

text \<open>
  On the writing side the file is absent, holds the list that \<open>json.dump\<close> wrote, or is
  damaged (opened for writing and not completed). A write meets one of three outcomes:
  it completes, \<open>open\<close> raises, or the dump raises after the file was opened.
\<close>

datatype 'r file_state = NoFile | Damaged | Saved "'r list"

datatype write_outcome = Written | OpenFailed | DumpFailed

record 'r PasswordHistory =
  history_file :: "'r file_state"
  max_records :: int
  records :: "'r list"

text \<open>Python's \<open>xs[k:]\<close> for an integer \<open>k\<close>.\<close>

definition slice_from :: "int \<Rightarrow> 'a list \<Rightarrow> 'a list" where
  "slice_from k xs =
     (let n = int (length xs);
          start = (if k < 0 then max (n + k) 0 else min k n)
      in drop (nat start) xs)"

text \<open>
  \<open>save_history\<close>: the truncation is inside the \<open>try\<close>, before the file is opened; an
  exception of the write is logged and swallowed.
\<close>

definition save_history :: "write_outcome \<Rightarrow> 'r PasswordHistory \<Rightarrow> 'r PasswordHistory" where
  "save_history w h =
     (let h1 = (if int (length (records h)) > max_records h
                then h\<lparr>records := slice_from (- max_records h) (records h)\<rparr> else h)
      in case w of
           Written \<Rightarrow> h1\<lparr>history_file := Saved (records h1)\<rparr>
         | OpenFailed \<Rightarrow> h1
         | DumpFailed \<Rightarrow> h1\<lparr>history_file := Damaged\<rparr>)"

definition add_record :: "write_outcome \<Rightarrow> 'r \<Rightarrow> 'r PasswordHistory \<Rightarrow> 'r PasswordHistory" where
  "add_record w r h = save_history w (h\<lparr>records := records h @ [r]\<rparr>)"

text \<open>A sequence of appends, each with the outcome of its write.\<close>

fun add_records :: "(write_outcome \<times> 'r) list \<Rightarrow> 'r PasswordHistory \<Rightarrow> 'r PasswordHistory" where
  "add_records [] h = h"
| "add_records ((w, r) # rest) h = add_records rest (add_record w r h)"

text \<open>The \<open>n\<close> newest elements of a list.\<close>

definition newest :: "int \<Rightarrow> 'a list \<Rightarrow> 'a list" where
  "newest n xs = drop (length xs - nat n) xs"

subsection \<open>\<open>get_failed_attempts\<close>\<close>

text \<open>
  The loop body: \<open>ValueError\<close> from the parser skips the record; any other exception, and
  the \<open>TypeError\<close> of comparing an aware time with the naive cutoff, leave the function.
  The comparison is evaluated before \<open>not record.success\<close>.
\<close>

fun failed_since ::
  "(string \<Rightarrow> py_error + datetime) \<Rightarrow> int \<Rightarrow> PasswordChangeRecord list
    \<Rightarrow> py_error + PasswordChangeRecord list" where
  "failed_since parse cutoff_time [] = Inr []"
| "failed_since parse cutoff_time (r # rs) =
     (case parse (timestamp r) of
        Inl (ValueError m) \<Rightarrow> failed_since parse cutoff_time rs
      | Inl e \<Rightarrow> Inl e
      | Inr record_time \<Rightarrow>
          (case datetime_gt_naive record_time cutoff_time of
             Inl e \<Rightarrow> Inl e
           | Inr later \<Rightarrow>
               (case failed_since parse cutoff_time rs of
                  Inl e \<Rightarrow> Inl e
                | Inr failed_attempts \<Rightarrow>
                    Inr (if later \<and> \<not> success r then r # failed_attempts else failed_attempts))))"

text \<open>A record's timestamp parses to a naive time after the cutoff.\<close>

definition in_window :: "(string \<Rightarrow> py_error + datetime) \<Rightarrow> int \<Rightarrow> PasswordChangeRecord \<Rightarrow> bool" where
  "in_window parse cutoff_time r =
     (case parse (timestamp r) of Inr (Naive t) \<Rightarrow> t > cutoff_time | _ \<Rightarrow> False)"

definition get_failed_attempts ::
  "(string \<Rightarrow> py_error + datetime) \<Rightarrow> int \<Rightarrow> int \<Rightarrow> PasswordChangeRecord list
    \<Rightarrow> py_error + PasswordChangeRecord list" where
  "get_failed_attempts parse now since_hours rs =
     (case timedelta_hours since_hours of
        Inl e \<Rightarrow> Inl e
      | Inr delta \<Rightarrow>
          (case datetime_sub now delta of
             Inl e \<Rightarrow> Inl e
           | Inr cutoff_time \<Rightarrow> failed_since parse cutoff_time rs))"

subsection \<open>\<open>load_history\<close>\<close>

text \<open>
  On the reading side the file is absent, cannot be opened or decoded, is not JSON, or
  holds a JSON value. \<open>from_dict\<close> is \<open>cls(**data)\<close>: the argument must be an object whose
  keys are field names and include the four fields without a default; the values are
  taken as they are, whatever their type. The keys of a decoded object are distinct.
\<close>

datatype json =
    JNull | JBool bool | JNum int | JStr string | JArr "json list" | JObj "(string \<times> json) list"

datatype stored = Absent | Unreadable | NotJson | Json json

record loaded_record =
  loaded_timestamp :: json
  loaded_old_password_hash :: json
  loaded_new_password_hash :: json
  loaded_success :: json
  loaded_error_message :: json

definition field_names :: "string list" where
  "field_names =
     [''timestamp'', ''old_password_hash'', ''new_password_hash'', ''success'', ''error_message'']"

definition from_dict :: "json \<Rightarrow> py_error + loaded_record" where
  "from_dict data =
     (case data of
        JObj kvs \<Rightarrow>
          (if \<exists>k \<in> set (map fst kvs). k \<notin> set field_names
           then Inl (TypeError ''unexpected keyword argument'')
           else case (map_of kvs ''timestamp'', map_of kvs ''old_password_hash'',
                      map_of kvs ''new_password_hash'', map_of kvs ''success'') of
             (Some t, Some old, Some new, Some s) \<Rightarrow>
               Inr \<lparr>loaded_timestamp = t, loaded_old_password_hash = old,
                    loaded_new_password_hash = new, loaded_success = s,
                    loaded_error_message =
                      (case map_of kvs ''error_message'' of None \<Rightarrow> JNull | Some e \<Rightarrow> e)\<rparr>
           | _ \<Rightarrow> Inl (TypeError ''missing required positional arguments''))
      | _ \<Rightarrow> Inl (TypeError ''argument after ** must be a mapping''))"

fun from_dicts :: "json list \<Rightarrow> py_error + loaded_record list" where
  "from_dicts [] = Inr []"
| "from_dicts (x # xs) =
     (case from_dict x of
        Inl e \<Rightarrow> Inl e
      | Inr r \<Rightarrow> (case from_dicts xs of Inl e \<Rightarrow> Inl e | Inr rs \<Rightarrow> Inr (r # rs)))"

text \<open>
  The list comprehension iterates over the decoded value: the elements of an array, the
  keys of an object, the characters of a string; anything else is not iterable.
\<close>

definition iterate_json :: "json \<Rightarrow> py_error + json list" where
  "iterate_json data =
     (case data of
        JArr xs \<Rightarrow> Inr xs
      | JObj kvs \<Rightarrow> Inr (map (JStr \<circ> fst) kvs)
      | JStr s \<Rightarrow> Inr (map (\<lambda>c. JStr [c]) s)
      | _ \<Rightarrow> Inl (TypeError ''object is not iterable''))"

text \<open>The body of the \<open>try\<close>: \<open>None\<close> when the file does not exist and nothing is assigned.\<close>

definition read_history :: "stored \<Rightarrow> py_error + loaded_record list option" where
  "read_history f =
     (case f of
        Absent \<Rightarrow> Inr None
      | Unreadable \<Rightarrow> Inl (OtherError ''cannot read the file'')
      | NotJson \<Rightarrow> Inl (ValueError ''JSONDecodeError'')
      | Json data \<Rightarrow>
          (case iterate_json data of
             Inl e \<Rightarrow> Inl e
           | Inr xs \<Rightarrow> (case from_dicts xs of Inl e \<Rightarrow> Inl e | Inr rs \<Rightarrow> Inr (Some rs))))"

text \<open>
  \<open>__init__\<close> sets \<open>records = []\<close> and calls \<open>load_history\<close>, whose handler catches every
  exception and sets \<open>records = []\<close> again.
\<close>

definition load_history :: "stored \<Rightarrow> loaded_record list" where
  "load_history f =
     (case read_history f of
        Inl e \<Rightarrow> []
      | Inr None \<Rightarrow> []
      | Inr (Some rs) \<Rightarrow> rs)"

section \<open>Messages\<close>

text \<open>
  The program's messages are Russian string literals. A \<open>string\<close> here is a list of
  bytes, so each literal is given by its UTF-8 encoding.
\<close>

text \<open>unknown_error_text: the literal of \<open>change_password_job\<close> for a change that returned \<open>False\<close> (``unknown error'').\<close>

definition unknown_error_text :: string where
  "unknown_error_text = map char_of
     ([208, 157, 208, 181, 208, 184, 208, 183, 208, 178, 208, 181, 209, 129, 209, 130, 208, 189, 208, 176, 209, 143, 32, 208, 190, 209, 136, 208, 184, 208, 177, 208, 186, 208, 176] :: nat list)"

text \<open>password_too_short_text: the message of \<open>generate_password\<close> for a length under 4.\<close>

definition password_too_short_text :: string where
  "password_too_short_text = map char_of
     ([208, 148, 208, 187, 208, 184, 208, 189, 208, 176, 32, 208, 191, 208, 176, 209, 128, 208, 190, 208, 187, 209, 143, 32, 208, 180, 208, 190, 208, 187, 208, 182, 208, 189, 208, 176, 32, 208, 177, 209, 139, 209, 130, 209, 140, 32, 208, 189, 208, 181, 32, 208, 188, 208, 181, 208, 189, 208, 181, 208, 181, 32, 52, 32, 209, 129, 208, 184, 208, 188, 208, 178, 208, 190, 208, 187, 208, 190, 208, 178] :: nat list)"

text \<open>no_charset_text: the message of \<open>generate_password\<close> when no character class is selected.\<close>

definition no_charset_text :: string where
  "no_charset_text = map char_of
     ([208, 148, 208, 190, 208, 187, 208, 182, 208, 181, 208, 189, 32, 208, 177, 209, 139, 209, 130, 209, 140, 32, 208, 178, 209, 139, 208, 177, 209, 128, 208, 176, 208, 189, 32, 209, 133, 208, 190, 209, 130, 209, 143, 32, 208, 177, 209, 139, 32, 208, 190, 208, 180, 208, 184, 208, 189, 32, 209, 130, 208, 184, 208, 191, 32, 209, 129, 208, 184, 208, 188, 208, 178, 208, 190, 208, 187, 208, 190, 208, 178] :: nat list)"

text \<open>
  The labels of \<open>validate_password_strength\<close> and the three notifications of the job:
  the change succeeded (with the strength of the new password), the change failed, and a
  critical error with \<open>str(e)\<close>.
\<close>

datatype strength = VeryWeak | Weak | Medium | Strong | VeryStrong

datatype notice = ChangeSucceeded strength | ChangeFailed | CriticalError string

section \<open>\<open>SteamWebClient\<close> (steam\_client.py)\<close>

text \<open>
  The server is the environment: each round trip either raises (the text of the
  exception) or returns a reply. Request bodies are not tracked, so the RSA encryption of
  the password, which only feeds the login request and swallows its own exceptions, has no
  counterpart here. The trace records every session that is created and closed and every
  request that is sent.

  \<open>response.cookies\<close> is aiohttp's \<open>SimpleCookie\<close>, a dictionary from cookie names to
  morsels. The loops of the source iterate over it, which yields the names; a name is a
  string and has neither \<open>key\<close> nor \<open>value\<close>, so reading \<open>cookie.key\<close> raises
  \<open>AttributeError\<close> as soon as the response sets any cookie. A reply lists the cookies that
  the response sets, as names with values.
\<close>

datatype 'a outcome = Raises string | Returns 'a

datatype event =
    SessionCreated
  | SessionClosed
  | Post string
  | Get string
  | GeneratePassword
  | SuccessLogged
  | Notified notice

record rsa_reply =
  rsa_success :: bool

record login_reply =
  reply_success :: bool
  reply_login_complete :: bool
  reply_transfer_urls :: "string list option"
  reply_cookies :: "(string \<times> string) list"

text \<open>
  The change page is given by its status and by the token that \<open>_extract_csrf_token\<close>
  finds in its text (\<open>None\<close> when no pattern matches); the reply to the submission by its
  status and the truth of \<open>result.get('success')\<close>.
\<close>

record network =
  rsa_key_reply :: "rsa_reply outcome"
  dologin_reply :: "login_reply outcome"
  transfer_reply :: "(string \<times> string) list outcome"
  change_page_reply :: "(int \<times> string option) outcome"
  change_submit_reply :: "(int \<times> bool) outcome"

record SteamWebClient =
  session :: bool
  session_id :: "string option"
  login_cookies :: "string \<rightharpoonup> string"

definition new_client :: SteamWebClient where
  "new_client = \<lparr>session = False, session_id = None, login_cookies = Map.empty\<rparr>"

definition get_rsa_key :: "network \<Rightarrow> bool \<times> event list" where
  "get_rsa_key net =
     (case rsa_key_reply net of
        Raises e \<Rightarrow> (False, [Post ''https://steamcommunity.com/login/getrsakey/''])
      | Returns r \<Rightarrow> (rsa_success r, [Post ''https://steamcommunity.com/login/getrsakey/'']))"

text \<open>
  \<open>_extract_session_data\<close>: an exception of the request, and the \<open>AttributeError\<close> of the
  first cookie of the response, are caught and leave the client as it was. When the
  response sets no cookie the loop does nothing and \<open>session_id\<close> is read from the cookies
  stored so far. The assignment of \<open>steam_id\<close> follows that of \<open>session_id\<close> inside the
  same \<open>try\<close> and nothing reads it.
\<close>

definition extract_session_data :: "network \<Rightarrow> string \<Rightarrow> SteamWebClient \<Rightarrow> SteamWebClient \<times> event list" where
  "extract_session_data net transfer_url c =
     (case transfer_reply net of
        Raises e \<Rightarrow> (c, [Get transfer_url])
      | Returns cookies \<Rightarrow>
          (if cookies \<noteq> [] then (c, [Get transfer_url])
           else (c\<lparr>session_id := login_cookies c ''sessionid''\<rparr>, [Get transfer_url])))"

text \<open>
  \<open>login\<close>: \<open>RuntimeError\<close> without a session; inside the \<open>try\<close> every exception
  returns \<open>False\<close>: that of a request, the \<open>AttributeError\<close> of the dictionary
  comprehension when the login response sets a cookie (raised before \<open>login_cookies\<close> is
  assigned), and the \<open>IndexError\<close> of an empty \<open>transfer_urls\<close>. When the response sets no
  cookie the comprehension gives the empty dictionary.
\<close>

definition login :: "network \<Rightarrow> SteamWebClient \<Rightarrow> py_error + (bool \<times> SteamWebClient \<times> event list)" where
  "login net c =
     (if \<not> session c then Inl (OtherError ''RuntimeError'')
      else
        let (rsa_key, ev1) = get_rsa_key net in
        if \<not> rsa_key then Inr (False, c, ev1)
        else
          let ev2 = ev1 @ [Post ''https://steamcommunity.com/login/dologin/''] in
          case dologin_reply net of
            Raises e \<Rightarrow> Inr (False, c, ev2)
          | Returns result \<Rightarrow>
              if reply_success result \<and> reply_login_complete result then
                if reply_cookies result \<noteq> [] then Inr (False, c, ev2)
                else
                  let c1 = c\<lparr>login_cookies := Map.empty\<rparr> in
                  (case reply_transfer_urls result of
                     None \<Rightarrow> Inr (True, c1, ev2)
                   | Some [] \<Rightarrow> Inr (False, c1, ev2)
                   | Some (url # urls) \<Rightarrow>
                       (let (c2, ev3) = extract_session_data net url c1
                        in Inr (True, c2, ev2 @ ev3)))
              else Inr (False, c, ev2))"

text \<open>\<open>not self.session_id\<close>: \<open>None\<close> and the empty string are false.\<close>

definition no_session_id :: "SteamWebClient \<Rightarrow> bool" where
  "no_session_id c = (session_id c = None \<or> session_id c = Some [])"

definition client_change_password :: "network \<Rightarrow> SteamWebClient \<Rightarrow> bool \<times> event list" where
  "client_change_password net c =
     (if \<not> session c \<or> no_session_id c then (False, [])
      else
        let ev1 = [Get ''https://steamcommunity.com/profiles/edit/changepassword''] in
        case change_page_reply net of
          Raises e \<Rightarrow> (False, ev1)
        | Returns (status, csrf_token) \<Rightarrow>
            if status \<noteq> 200 then (False, ev1)
            else if csrf_token = None then (False, ev1)
            else
              let ev2 = ev1 @ [Post ''https://steamcommunity.com/profiles/edit/changepasswordsubmit''] in
              case change_submit_reply net of
                Raises e \<Rightarrow> (False, ev2)
              | Returns (status2, ok) \<Rightarrow> (status2 = 200 \<and> ok, ev2))"

section \<open>The configuration\<close>

text \<open>
  \<open>config.json\<close> after the defaults of the \<open>.get\<close> calls have been filled in. The
  scheduler and the password changer hold the same dictionary object, so there is one
  configuration in memory, and one file.
\<close>

record steam_account =
  login_name :: string
  password :: string
  shared_secret :: string
  identity_secret :: string
  device_id :: string
  steamid :: int

record password_change =
  password_length :: int
  use_lowercase :: bool
  use_uppercase :: bool
  use_numbers :: bool
  use_special_chars :: bool
  exclude_ambiguous :: bool

record notifications =
  enable_notifications :: bool
  notify_on_success :: bool
  notify_on_error :: bool
  notification_method :: string

record config =
  account :: steam_account
  change_policy :: password_change
  notification_policy :: notifications

section \<open>\<open>SteamPasswordChanger.change_password\<close> (steam\_client.py)\<close>

text \<open>
  The client is created and closed around the body on every path (\<open>async with\<close>), and
  every exception is caught: the function returns a truth value and, when the change
  succeeded, has stored the new password in the shared configuration.
\<close>

definition changer_change_password ::
  "int \<Rightarrow> network \<Rightarrow> config \<Rightarrow> string \<Rightarrow> bool \<times> config \<times> event list" where
  "changer_change_password unixtime net cfg new_password =
     (let client = new_client\<lparr>session := True\<rparr> in
      case generate_auth_code (shared_secret (account cfg)) unixtime of
        Inl e \<Rightarrow> (False, cfg, [SessionCreated, SessionClosed])
      | Inr auth_code \<Rightarrow>
          (case login net client of
             Inl e \<Rightarrow> (False, cfg, [SessionCreated, SessionClosed])
           | Inr (login_success, client1, ev1) \<Rightarrow>
               if \<not> login_success then (False, cfg, SessionCreated # ev1 @ [SessionClosed])
               else
                 let (change_success, ev2) = client_change_password net client1 in
                 if change_success
                 then (True, cfg\<lparr>account := (account cfg)\<lparr>password := new_password\<rparr>\<rparr>,
                       SessionCreated # ev1 @ ev2 @ [SessionClosed])
                 else (False, cfg, SessionCreated # ev1 @ ev2 @ [SessionClosed])))"

section \<open>\<open>PasswordGenerator\<close> as the scheduler uses it (password\_generator.py)\<close>

text \<open>
  The characters are drawn by \<open>secrets\<close>; the string that results is given. What the
  configuration decides are the two \<open>ValueError\<close>s that the scheduler's call can meet:
  the other two checks of the source cannot fail here, since every class keeps a character
  after the ambiguous ones are removed and at most four characters are required of a
  password of at least four.
\<close>

definition generate_password :: "password_change \<Rightarrow> string \<Rightarrow> py_error + string" where
  "generate_password p drawn =
     (if password_length p < 4 then Inl (ValueError password_too_short_text)
      else if \<not> (use_lowercase p \<or> use_uppercase p \<or> use_numbers p \<or> use_special_chars p)
      then Inl (ValueError no_charset_text)
      else Inr drawn)"

definition in_range :: "nat \<Rightarrow> nat \<Rightarrow> char \<Rightarrow> bool" where
  "in_range lo hi c = (lo \<le> (of_char c :: nat) \<and> (of_char c :: nat) \<le> hi)"

definition validate_password_strength :: "string \<Rightarrow> strength" where
  "validate_password_strength pw =
     (let n = length pw;
          score = (if n \<ge> 8 then 1 else 0) + (if n \<ge> 12 then 1 else 0) + (if n \<ge> 16 then 1 else 0)
            + (if \<exists>c \<in> set pw. in_range 97 122 c then 1 else 0)
            + (if \<exists>c \<in> set pw. in_range 65 90 c then 1 else 0)
            + (if \<exists>c \<in> set pw. in_range 48 57 c then 1 else 0)
            + (if \<exists>c \<in> set pw. c \<in> set ''!@#$%^&*()_+-=[]{}|;:,.<>?'' then 2 else (0::nat))
      in if score \<ge> 7 then VeryStrong else if score \<ge> 5 then Strong
         else if score \<ge> 3 then Medium else if score \<ge> 1 then Weak else VeryWeak)"

section \<open>\<open>SteamPasswordScheduler\<close> (scheduler.py)\<close>

datatype config_file = ConfigStored config | ConfigDamaged

record scheduler =
  config :: config
  config_file :: config_file
  password_history :: "PasswordChangeRecord PasswordHistory"

text \<open>
  What one run of the job meets: the library parser, the clock (as \<open>datetime.now()\<close>, as
  its \<open>isoformat()\<close> and as \<open>time.time()\<close>), the SHA-256 hex digest behind
  \<open>hash_password\<close>, the password that is drawn, the server, and the outcomes of the writes
  of the history file and of the configuration file.
\<close>

record world =
  parse_iso :: "string \<Rightarrow> py_error + datetime"
  now :: int
  now_iso :: string
  unixtime :: int
  sha256_hex :: "string \<Rightarrow> string"
  drawn_password :: string
  net :: network
  history_write :: write_outcome
  config_write :: write_outcome

definition hash_password :: "world \<Rightarrow> string \<Rightarrow> string" where
  "hash_password w pw = take 16 (sha256_hex w pw)"

text \<open>
  \<open>save_config\<close> catches every exception of the write and returns nothing either way.
\<close>

definition save_config :: "write_outcome \<Rightarrow> scheduler \<Rightarrow> scheduler" where
  "save_config wr s =
     (case wr of
        Written \<Rightarrow> s\<lparr>config_file := ConfigStored (config s)\<rparr>
      | OpenFailed \<Rightarrow> s
      | DumpFailed \<Rightarrow> s\<lparr>config_file := ConfigDamaged\<rparr>)"

text \<open>
  \<open>send_notification\<close> delivers to the console only, and only when notifications are
  enabled.
\<close>

definition send_notification :: "config \<Rightarrow> notice \<Rightarrow> event list" where
  "send_notification cfg n =
     (if \<not> enable_notifications (notification_policy cfg) then []
      else if notification_method (notification_policy cfg) = ''console'' then [Notified n]
      else [])"

text \<open>The handler of \<open>change_password_job\<close>: one failure record with \<open>str(e)\<close>.\<close>

definition on_exception :: "world \<Rightarrow> py_error \<Rightarrow> scheduler \<Rightarrow> scheduler \<times> event list" where
  "on_exception w e s =
     (let record = \<lparr>timestamp = now_iso w, old_password_hash = [], new_password_hash = [],
                     success = False, error_message = Some (str_of e)\<rparr>;
          s1 = s\<lparr>password_history := add_record (history_write w) record (password_history s)\<rparr>
      in (s1, if notify_on_error (notification_policy (config s1))
              then send_notification (config s1) (CriticalError (str_of e)) else []))"

definition change_password_job :: "world \<Rightarrow> scheduler \<Rightarrow> scheduler \<times> event list" where
  "change_password_job w s =
     (case get_failed_attempts (parse_iso w) (now w) 1 (records (password_history s)) of
        Inl e \<Rightarrow> on_exception w e s
      | Inr failed_attempts \<Rightarrow>
          if length failed_attempts \<ge> 3 then (s, [])
          else
            (case generate_password (change_policy (config s)) (drawn_password w) of
               Inl e \<Rightarrow> (let (s1, ev) = on_exception w e s in (s1, GeneratePassword # ev))
             | Inr new_password \<Rightarrow>
                 let password_strength = validate_password_strength new_password;
                     old_password = password (account (config s));
                     (ok, cfg1, ev1) = changer_change_password (unixtime w) (net w) (config s) new_password;
                     record = \<lparr>timestamp = now_iso w,
                               old_password_hash = hash_password w old_password,
                               new_password_hash = hash_password w new_password,
                               success = ok,
                               error_message = (if ok then None else Some unknown_error_text)\<rparr>;
                     s1 = s\<lparr>config := cfg1,
                            password_history := add_record (history_write w) record (password_history s)\<rparr>
                 in
                   if ok then
                     let s2 = s1\<lparr>config := (config s1)\<lparr>account := (account (config s1))\<lparr>password := new_password\<rparr>\<rparr>\<rparr>;
                         s3 = save_config (config_write w) s2
                     in (s3, GeneratePassword # ev1 @ [SuccessLogged] @
                              (if notify_on_success (notification_policy (config s3))
                               then send_notification (config s3) (ChangeSucceeded password_strength)
                               else []))
                   else
                     (s1, GeneratePassword # ev1 @
                            (if notify_on_error (notification_policy (config s1))
                             then send_notification (config s1) ChangeFailed else []))))"

text \<open>
  Both triggers hand the same job to \<open>run_async_job\<close>, which runs it to completion; the
  job catches its own exceptions.
\<close>

datatype trigger = Scheduled | Forced

definition run_async_job :: "(world \<Rightarrow> scheduler \<Rightarrow> scheduler \<times> event list) \<Rightarrow> world \<Rightarrow> scheduler \<Rightarrow> scheduler \<times> event list" where
  "run_async_job job_func w s = job_func w s"

definition force_password_change :: "world \<Rightarrow> scheduler \<Rightarrow> scheduler \<times> event list" where
  "force_password_change w s = run_async_job change_password_job w s"

definition scheduled_password_change :: "world \<Rightarrow> scheduler \<Rightarrow> scheduler \<times> event list" where
  "scheduled_password_change w s = run_async_job change_password_job w s"

fun rotation_cycle :: "trigger \<Rightarrow> world \<Rightarrow> scheduler \<Rightarrow> scheduler \<times> event list" where
  "rotation_cycle Scheduled w s = scheduled_password_change w s"
| "rotation_cycle Forced w s = force_password_change w s"

definition contacts_server :: "event \<Rightarrow> bool" where
  "contacts_server ev =
     (case ev of SessionCreated \<Rightarrow> True | SessionClosed \<Rightarrow> True | Post u \<Rightarrow> True | Get u \<Rightarrow> True
      | GeneratePassword \<Rightarrow> True | _ \<Rightarrow> False)"

section \<open>A sample installation\<close>

text \<open>
  A configuration with the secret of the repository's own test, an empty history that
  keeps ten records, a server that accepts every request and sets the session cookie on
  the transfer response, and a clock. The digest function is a stand-in: no statement
  below depends on what it returns.
\<close>

definition sample_config :: config where
  "sample_config =
     \<lparr>account = \<lparr>login_name = ''test_user'', password = ''old-password'',
                   shared_secret = ''dGVzdF9zaGFyZWRfc2VjcmV0X2Zvcl90ZXN0aW5nXzEyMzQ1'',
                   identity_secret = ''dGVzdF9pZGVudGl0eV9zZWNyZXQ='',
                   device_id = ''test_device_id'', steamid = 76561198000000000\<rparr>,
      change_policy = \<lparr>password_length = 16, use_lowercase = True, use_uppercase = True,
                         use_numbers = True, use_special_chars = True, exclude_ambiguous = True\<rparr>,
      notification_policy = \<lparr>enable_notifications = True, notify_on_success = True,
                               notify_on_error = True, notification_method = ''console''\<rparr>\<rparr>"

definition sample_scheduler :: scheduler where
  "sample_scheduler =
     \<lparr>config = sample_config, config_file = ConfigStored sample_config,
      password_history = \<lparr>history_file = NoFile, max_records = 10, records = []\<rparr>\<rparr>"

definition accepting_server :: network where
  "accepting_server =
     \<lparr>rsa_key_reply = Returns \<lparr>rsa_success = True\<rparr>,
      dologin_reply = Returns \<lparr>reply_success = True, reply_login_complete = True,
                                reply_transfer_urls = Some [''https://store.steampowered.com/login/transfer''],
                                reply_cookies = []\<rparr>,
      transfer_reply = Returns [(''sessionid'', ''0123456789abcdef'')],
      change_page_reply = Returns (200, Some ''token''),
      change_submit_reply = Returns (200, True)\<rparr>"

definition sample_world :: world where
  "sample_world =
     \<lparr>parse_iso = fromisoformat, now = 63839665800123456,
      now_iso = ''2024-01-01T00:30:00.123456'', unixtime = 1704069000,
      sha256_hex = (\<lambda>pw. replicate 64 CHR ''0''),
      drawn_password = ''Xk9mQ2vB7nR4pT6w'', net = accepting_server,
      history_write = Written, config_write = Written\<rparr>"

definition failure_at :: "string \<Rightarrow> PasswordChangeRecord" where
  "failure_at ts = \<lparr>timestamp = ts, old_password_hash = [], new_password_hash = [],
                     success = False, error_message = Some unknown_error_text\<rparr>"

section \<open>Properties of the one-time code\<close>

lemma sha1_length: "length (sha1 m) = 20"
proof -
  obtain a b c d e where
    "sha1_blocks (length (sha1_pad m) div 64) sha1_init (sha1_pad m) = (a, b, c, d, e)"
    by (metis prod_cases5)
  then show ?thesis by (simp add: sha1_def Let_def)
qed

lemma hmac_sha1_length: "length (hmac_sha1 key msg) = 20"
  by (simp add: hmac_sha1_def Let_def sha1_length)

lemma or_byte: "push_bit 8 (a::int) OR uint (b::byte) = a * 256 + uint b"
proof -
  have "uint b < 2 ^ 8" using uint_bounded [of b] by simp
  then have "take_bit 8 (uint b) = uint b"
    by (simp add: take_bit_eq_mod)
  then show ?thesis
    using concat_bit_eq [of 8 "uint b" a]
    by (simp add: concat_bit_def push_bit_eq_mult or.commute)
qed

lemma and_mask31: "(v::int) AND 0x7FFFFFFF = v mod 2 ^ 31"
proof -
  have m: "mask 31 = (0x7FFFFFFF::int)" by (simp add: mask_eq_exp_minus_1)
  have "v AND mask 31 = take_bit 31 v" by (simp only: take_bit_eq_mask)
  then show ?thesis unfolding m by (simp add: take_bit_eq_mod)
qed

lemma low_nibble: "unat ((w::byte) AND 0x0F) = unat w mod 16"
proof -
  have "(0x0F::byte) = mask 4" by (simp add: mask_eq_exp_minus_1)
  then have "w AND 0x0F = take_bit 4 w" by (simp add: take_bit_eq_mask)
  then show ?thesis by (simp add: unsigned_take_bit_eq take_bit_eq_mod unat_mod_distrib)
qed

lemma take4: "k + 4 \<le> length d \<Longrightarrow> take 4 (drop k d) = [d ! k, d ! (k + 1), d ! (k + 2), d ! (k + 3)]"
  by (auto simp: list_eq_iff_nth_eq less_Suc_eq numeral_eq_Suc add.commute)

lemma pack_Q: "0 \<le> c \<Longrightarrow> c < 2 ^ 64 \<Longrightarrow> struct_pack_Q c = Inr (spec_counter_bytes c)"
  apply (simp add: struct_pack_Q_def spec_counter_bytes_def drop_bit_eq_div upt_rec numeral_eq_Suc)
  apply (simp add: word_of_int_eq_iff take_bit_eq_mod)?
  done

lemma trunc_eq: "length d = 20 \<Longrightarrow>
   truncate_digest d = Inr (format_05d (spec_dynamic_truncate d mod 1000000))"
proof -
  assume len: "length d = 20"
  then have ne: "d \<noteq> []" by auto
  define k where "k = unat (last d) mod 16"
  have k: "k + 4 \<le> length d" using len by (simp add: k_def)
  have sum4: "(\<Sum>i<(4::nat). f i) = f 0 + f 1 + f 2 + (f 3 :: int)" for f
    by (simp add: numeral_eq_Suc)
  show ?thesis
    using ne k
    by (simp add: mult.commute truncate_digest_def low_nibble k_def [symmetric] take4 [OF k]
        struct_unpack_I_def or_byte and_mask31 spec_dynamic_truncate_def Let_def sum4)
qed

lemma format_nonneg: "0 \<le> n \<Longrightarrow> format_05d n = spec_zero_pad 5 (decimal (nat n))"
  by (simp add: format_05d_def spec_zero_pad_def)

lemma auth_code_refines:
  "0 \<le> t \<Longrightarrow> t < 30 * 2 ^ 64 \<Longrightarrow> generate_auth_code s t = spec_generate s t"
proof -
  assume t: "0 \<le> t" "t < 30 * 2 ^ 64"
  then have "t div 30 \<le> (30 * 2 ^ 64 - 1) div 30" by (intro zdiv_mono1) simp_all
  with t have c: "0 \<le> t div 30" "t div 30 < 2 ^ 64" by (simp_all add: pos_imp_zdiv_nonneg_iff)
  have nn: "0 \<le> spec_dynamic_truncate d mod 1000000" for d by simp
  show "generate_auth_code s t = spec_generate s t"
    by (simp add: generate_auth_code_def spec_generate_def pack_Q [OF c] Let_def
        trunc_eq [OF hmac_sha1_length] format_nonneg [OF nn] split: option.split)
qed

text \<open>
  C8. The code for a timestamp is the code for the start of its 30-second window:
  \<open>generate(secret, t) = generate(secret, t - t mod 30)\<close>, for every secret and every
  integer timestamp, the errors included.
\<close>

theorem generate_auth_code_window:
  "generate_auth_code s t = generate_auth_code s (t - t mod 30)"
  by (simp add: generate_auth_code_def minus_mod_eq_mult_div)

text \<open>
  C9. For a timestamp whose counter fits eight bytes, \<open>generate_auth_code\<close> is the
  derivation that the specification words: the 8-byte big-endian counter of
  \<open>floor(t / 30)\<close>, HMAC-SHA1 under the decoded secret, the offset from the low nibble
  of the last byte, four bytes read big-endian, the sign bit masked off, the rest modulo
  1,000,000, zero-padded to at least five digits. A secret that does not decode gives the
  invalid-secret \<open>ValueError\<close> whatever the timestamp.
\<close>

theorem generate_auth_code_steps:
  "(0 \<le> t \<and> t < 30 * 2 ^ 64 \<longrightarrow> generate_auth_code s t = spec_generate s t) \<and>
   (b64decode s = None \<longrightarrow> generate_auth_code s t = Inl invalid_secret)"
  by (simp add: auth_code_refines) (simp add: generate_auth_code_def)

text \<open>
  C9, witness: the timestamp 60 with a secret that decodes and with one that does not.
\<close>

theorem generate_auth_code_steps_witness:
  "generate_auth_code ''AAAA'' 60 = spec_generate ''AAAA'' 60 \<and>
   generate_auth_code ''A'' 60 = Inl invalid_secret"
proof -
  have n: "b64decode ''A'' = None" by (simp add: b64decode_def b64_value_def)
  have a: "generate_auth_code ''AAAA'' 60 = spec_generate ''AAAA'' 60"
    using generate_auth_code_steps [of 60 "''AAAA''"] by simp
  have b: "generate_auth_code ''A'' 60 = Inl invalid_secret"
    using generate_auth_code_steps [of 60 "''A''"] n by blast
  show ?thesis using a b by blast
qed

subsection \<open>The test's secret at timestamp 30\<close>

text \<open>
  The four compressions of HMAC-SHA1 for the key of the repository's own test and the
  counter 1, each evaluated on its own; the values agree with \<open>hashlib\<close> and \<open>hmac\<close>.
\<close>

lemma sha1_schedule_numeral:
  "sha1_schedule (numeral k) ws =
     sha1_schedule (pred_numeral k) (rotl32 1 (ws ! 2 XOR ws ! 7 XOR ws ! 13 XOR ws ! 15) # ws)"
  by (simp add: numeral_eq_Suc)

lemma sha1_blocks_numeral:
  "sha1_blocks (numeral k) h p = sha1_blocks (pred_numeral k) (sha1_block h (take 64 p)) (drop 64 p)"
  by (simp add: numeral_eq_Suc)

lemma block_ipad:
  "sha1_block sha1_init
     [66, 83, 69, 66, 105, 69, 94, 87, 68, 83, 82, 105, 69, 83, 85, 68, 83, 66, 105, 80, 89, 68, 105, 66, 83, 69, 66, 95, 88, 81, 105, 7, 4, 5, 2, 3, 54, 54, 54, 54, 54, 54, 54, 54, 54, 54, 54, 54, 54, 54, 54, 54, 54, 54, 54, 54, 54, 54, 54, 54, 54, 54, 54, 54] =
   (2540131433, 4123187450, 4270065785, 880824175, 3026108953)"
  by (simp add: sha1_block_def sha1_schedule_numeral sha1_f_def sha1_k_def rotl32_def sha1_init_def)

lemma block_counter:
  "sha1_block (2540131433, 4123187450, 4270065785, 880824175, 3026108953)
     [0, 0, 0, 0, 0, 0, 0, 1, 128, 0, 0, 0, 0, 0, 0, 0, 0, 0, 0, 0, 0, 0, 0, 0, 0, 0, 0, 0, 0, 0, 0, 0, 0, 0, 0, 0, 0, 0, 0, 0, 0, 0, 0, 0, 0, 0, 0, 0, 0, 0, 0, 0, 0, 0, 0, 0, 0, 0, 0, 0, 0, 0, 2, 64] =
   (804512732, 2457421145, 1101214243, 1934093476, 358813507)"
  by (simp add: sha1_block_def sha1_schedule_numeral sha1_f_def sha1_k_def rotl32_def)

lemma block_opad:
  "sha1_block sha1_init
     [40, 57, 47, 40, 3, 47, 52, 61, 46, 57, 56, 3, 47, 57, 63, 46, 57, 40, 3, 58, 51, 46, 3, 40, 57, 47, 40, 53, 50, 59, 3, 109, 110, 111, 104, 105, 92, 92, 92, 92, 92, 92, 92, 92, 92, 92, 92, 92, 92, 92, 92, 92, 92, 92, 92, 92, 92, 92, 92, 92, 92, 92, 92, 92] =
   (171452367, 498981961, 4176795525, 1670961199, 677485165)"
  by (simp add: sha1_block_def sha1_schedule_numeral sha1_f_def sha1_k_def rotl32_def sha1_init_def)

lemma block_inner:
  "sha1_block (171452367, 498981961, 4176795525, 1670961199, 677485165)
     [47, 243, 227, 220, 146, 121, 69, 89, 65, 163, 50, 35, 115, 71, 236, 164, 21, 99, 15, 67, 128, 0, 0, 0, 0, 0, 0, 0, 0, 0, 0, 0, 0, 0, 0, 0, 0, 0, 0, 0, 0, 0, 0, 0, 0, 0, 0, 0, 0, 0, 0, 0, 0, 0, 0, 0, 0, 0, 0, 0, 0, 0, 2, 160] =
   (905875368, 3097283663, 3563263508, 1180926883, 829049928)"
  by (simp add: sha1_block_def sha1_schedule_numeral sha1_f_def sha1_k_def rotl32_def)

lemma sample_key:
  "b64decode ''dGVzdF9zaGFyZWRfc2VjcmV0X2Zvcl90ZXN0aW5nXzEyMzQ1'' =
     Some [116, 101, 115, 116, 95, 115, 104, 97, 114, 101, 100, 95, 115, 101, 99, 114, 101, 116, 95, 102, 111, 114, 95, 116, 101, 115, 116, 105, 110, 103, 95, 49, 50, 51, 52, 53]"
  by (simp add: b64decode_def b64_value_def)

lemma replicate_numeral_eval:
  "replicate (numeral k) x = x # replicate (pred_numeral k) x"
  by (simp add: numeral_eq_Suc)

lemma low_bytes: "(576 :: byte) = 64" "(672 :: byte) = 160"
  by simp_all

lemma inner_digest:
  "sha1 [66, 83, 69, 66, 105, 69, 94, 87, 68, 83, 82, 105, 69, 83, 85, 68, 83, 66, 105, 80, 89, 68, 105, 66, 83, 69, 66, 95, 88, 81, 105, 7, 4, 5, 2, 3, 54, 54, 54, 54, 54, 54, 54, 54, 54, 54, 54, 54, 54, 54, 54, 54, 54, 54, 54, 54, 54, 54, 54, 54, 54, 54, 54, 54, 0, 0, 0, 0, 0, 0, 0, 1] =
   [47, 243, 227, 220, 146, 121, 69, 89, 65, 163, 50, 35, 115, 71, 236, 164, 21, 99, 15, 67]"
  by (simp add: sha1_def sha1_pad_def sha1_blocks_numeral replicate_numeral_eval Let_def low_bytes
      block_ipad block_counter)

lemma outer_digest:
  "sha1 [40, 57, 47, 40, 3, 47, 52, 61, 46, 57, 56, 3, 47, 57, 63, 46, 57, 40, 3, 58, 51, 46, 3, 40, 57, 47, 40, 53, 50, 59, 3, 109, 110, 111, 104, 105, 92, 92, 92, 92, 92, 92, 92, 92, 92, 92, 92, 92, 92, 92, 92, 92, 92, 92, 92, 92, 92, 92, 92, 92, 92, 92, 92, 92, 47, 243, 227, 220, 146, 121, 69, 89, 65, 163, 50, 35, 115, 71, 236, 164, 21, 99, 15, 67] =
   [53, 254, 143, 168, 184, 156, 204, 79, 212, 99, 22, 20, 70, 99, 131, 163, 49, 106, 76, 72]"
  by (simp add: sha1_def sha1_pad_def sha1_blocks_numeral replicate_numeral_eval Let_def low_bytes
      block_opad block_inner)

lemma sample_digest:
  "hmac_sha1 [116, 101, 115, 116, 95, 115, 104, 97, 114, 101, 100, 95, 115, 101, 99, 114, 101, 116, 95, 102, 111, 114, 95, 116, 101, 115, 116, 105, 110, 103, 95, 49, 50, 51, 52, 53]
     [0, 0, 0, 0, 0, 0, 0, 1] =
   [53, 254, 143, 168, 184, 156, 204, 79, 212, 99, 22, 20, 70, 99, 131, 163, 49, 106, 76, 72]"
  by (simp add: hmac_sha1_def Let_def replicate_numeral_eval inner_digest outer_digest)

text \<open>
  C2, at the failing input. For the secret of the repository's own test and the timestamp
  30, \<open>generate_auth_code\<close> returns the six characters \<open>779860\<close>: the truncated value
  is reduced modulo 1000000, not 100000, and the format only pads to five.
\<close>

theorem auth_code_six_digits:
  "generate_auth_code ''dGVzdF9zaGFyZWRfc2VjcmV0X2Zvcl90ZXN0aW5nXzEyMzQ1'' 30 = Inr ''779860''"
  by (simp add: generate_auth_code_def sample_key struct_pack_Q_def sample_digest
      truncate_digest_def struct_unpack_I_def format_05d_def decimal.simps digit_char_def Let_def)

section \<open>Properties of the history\<close>

lemma records_save_history:
  "1 \<le> max_records h \<Longrightarrow> records (save_history w h) = newest (max_records h) (records h)"
  by (cases w) (auto simp: save_history_def slice_from_def newest_def Let_def max_def nat_diff_distrib')

lemma max_records_save_history [simp]: "max_records (save_history w h) = max_records h"
  by (cases w) (auto simp: save_history_def Let_def)

lemma max_records_add_record [simp]: "max_records (add_record w r h) = max_records h"
  by (simp add: add_record_def)

lemma newest_append: "newest n (newest n ys @ zs) = newest n (ys @ zs)"
proof -
  have "length ys - (length ys - nat n) + length zs - nat n + (length ys - nat n)
      = length ys + length zs - nat n" by arith
  then show ?thesis by (simp add: newest_def)
qed

lemma add_records_newest:
  "1 \<le> max_records h \<Longrightarrow> ops \<noteq> [] \<Longrightarrow>
   records (add_records ops h) = newest (max_records h) (records h @ map snd ops)"
proof (induction ops arbitrary: h)
  case Nil
  then show ?case by simp
next
  case (Cons op ops)
  obtain w r where op: "op = (w, r)" by (cases op)
  show ?case
  proof (cases "ops = []")
    case True
    with Cons.prems op show ?thesis
      by (simp add: add_record_def records_save_history)
  next
    case False
    with Cons.prems op Cons.IH [of "add_record w r h"]
      newest_append [of "max_records h" "records h @ [r]" "map snd ops"]
    show ?thesis
      by (simp add: add_record_def records_save_history)
  qed
qed

text \<open>
  C6, at the failing input. With \<open>max_records = 0\<close> the slice \<open>records[-0:]\<close> is the whole
  list: after two appends to an empty history both records are kept, in memory and in the
  file, although the bound is 0. (For a bound of at least 1, \<open>add_records_newest\<close> above
  shows that exactly the newest records are kept, in append order.)
\<close>

theorem retention_zero_keeps_everything: "records (add_records [(Written, r1), (Written, r2)] \<lparr>history_file = NoFile, max_records = 0, records = []\<rparr>) = [r1, r2]
  \<and> history_file (add_records [(Written, r1), (Written, r2)] \<lparr>history_file = NoFile, max_records = 0, records = []\<rparr>) = Saved [r1, r2]"
  by (simp add: add_record_def save_history_def slice_from_def)

lemma from_dicts_fails:
  "x \<in> set xs \<Longrightarrow> from_dict x = Inl e \<Longrightarrow> \<exists>e'. from_dicts xs = Inl e'"
  by (induction xs) (auto split: sum.splits)

text \<open>
  C7. A history file that cannot be read, that is not JSON, or whose JSON value is not
  iterable or has an element that \<open>from_dict\<close> rejects, raises inside \<open>load_history\<close>;
  the handler leaves the empty list, which is also what an absent file gives.
\<close>

theorem load_history_corrupt:
  "f = Unreadable \<or> f = NotJson \<or>
   (\<exists>data. f = Json data \<and>
      (\<forall>xs. iterate_json data = Inr xs \<longrightarrow> (\<exists>x \<in> set xs. \<exists>e. from_dict x = Inl e)))
   \<Longrightarrow> (\<exists>e. read_history f = Inl e) \<and> load_history f = [] \<and> load_history f = load_history Absent"
proof -
  assume a: "f = Unreadable \<or> f = NotJson \<or>
   (\<exists>data. f = Json data \<and>
      (\<forall>xs. iterate_json data = Inr xs \<longrightarrow> (\<exists>x \<in> set xs. \<exists>e. from_dict x = Inl e)))"
  have "\<exists>e. read_history f = Inl e"
  proof (cases f)
    case (Json data)
    with a have b: "\<forall>xs. iterate_json data = Inr xs \<longrightarrow> (\<exists>x \<in> set xs. \<exists>e. from_dict x = Inl e)"
      by simp
    show ?thesis
    proof (cases "iterate_json data")
      case (Inl e)
      with Json show ?thesis by (simp add: read_history_def)
    next
      case (Inr xs)
      with b obtain x e where "x \<in> set xs" "from_dict x = Inl e" by blast
      then obtain e' where "from_dicts xs = Inl e'" using from_dicts_fails by blast
      with Json Inr show ?thesis by (simp add: read_history_def)
    qed
  qed (use a in \<open>auto simp: read_history_def\<close>)
  then show ?thesis by (auto simp: load_history_def read_history_def)
qed

text \<open>
  C7, witness: an unreadable file, a file that is not JSON, an array whose element lacks
  required fields, and a number.
\<close>

theorem load_history_corrupt_witness:
  "load_history Unreadable = [] \<and> load_history NotJson = []
   \<and> load_history (Json (JArr [JObj [(''timestamp'', JStr ''2024-01-01T00:05:00'')]])) = []
   \<and> load_history (Json (JNum 7)) = []"
proof -
  have a: "\<forall>xs. iterate_json (JArr [JObj [(''timestamp'', JStr ''2024-01-01T00:05:00'')]]) = Inr xs
        \<longrightarrow> (\<exists>x \<in> set xs. \<exists>e. from_dict x = Inl e)"
    by (simp add: iterate_json_def from_dict_def field_names_def)
  have b: "\<forall>xs. iterate_json (JNum 7) = Inr xs \<longrightarrow> (\<exists>x \<in> set xs. \<exists>e. from_dict x = Inl e)"
    by (simp add: iterate_json_def)
  show ?thesis
    using load_history_corrupt [of Unreadable] load_history_corrupt [of NotJson]
      load_history_corrupt [of "Json (JArr [JObj [(''timestamp'', JStr ''2024-01-01T00:05:00'')]])"]
      load_history_corrupt [of "Json (JNum 7)"] a b
    by blast
qed

text \<open>
  C10, as amended. When the window is one that \<open>timedelta\<close> and the subtraction from
  \<open>now\<close> accept, and no timestamp of the history parses to a time with a UTC offset,
  \<open>get_failed_attempts\<close> returns exactly the records, in order, that are failures and
  whose timestamp parses to a time after the cutoff; a record whose timestamp raises
  \<open>ValueError\<close> is left out.
\<close>

theorem failed_attempts_filter:
  assumes "- 999999999 \<le> h div 24" and "h div 24 \<le> 999999999"
    and "0 \<le> n - h * 3600000000" and "n - h * 3600000000 \<le> datetime_max"
    and "\<forall>r \<in> set rs. (\<forall>t off. parse (timestamp r) \<noteq> Inr (Aware t off)) \<and>
           (\<forall>e. parse (timestamp r) = Inl e \<longrightarrow> (\<exists>m. e = ValueError m))"
  shows "get_failed_attempts parse n h rs =
           Inr (filter (\<lambda>r. in_window parse (n - h * 3600000000) r \<and> \<not> success r) rs)"
proof -
  have "failed_since parse (n - h * 3600000000) rs =
          Inr (filter (\<lambda>r. in_window parse (n - h * 3600000000) r \<and> \<not> success r) rs)"
    using assms(5)
  proof (induction rs)
    case Nil
    then show ?case by simp
  next
    case (Cons r rs)
    then have ih: "failed_since parse (n - h * 3600000000) rs =
          Inr (filter (\<lambda>r. in_window parse (n - h * 3600000000) r \<and> \<not> success r) rs)"
      by simp
    show ?case
    proof (cases "parse (timestamp r)")
      case (Inl e)
      with Cons.prems obtain m where "e = ValueError m" by auto
      with Inl ih show ?thesis by (simp add: in_window_def)
    next
      case (Inr dt)
      with Cons.prems obtain t where "dt = Naive t" by (cases dt) auto
      with Inr ih show ?thesis by (simp add: in_window_def)
    qed
  qed
  with assms(1-4) show ?thesis
    by (simp add: get_failed_attempts_def timedelta_hours_def datetime_sub_def)
qed

lemmas iso_defs = fromisoformat_def parse_date_time_def parse_offset_def digit_value_def
  days_in_month_def days_before_year_def days_before_month_def is_leap_def

text \<open>
  C10, counterexample. A history whose one failure record carries the well-formed ISO
  timestamp \<open>2024-01-01T00:00:00+00:00\<close>: the query, asked at 00:30 of that day for the
  last hour, does not return the record; it raises \<open>TypeError\<close>.
\<close>

theorem failed_attempts_raises_on_offset:
  "get_failed_attempts fromisoformat 63839665800123456 1
     [failure_at ''2024-01-01T00:00:00+00:00''] =
   Inl (TypeError ''cannot compare offset-naive and offset-aware datetimes'')"
  by (simp add: get_failed_attempts_def timedelta_hours_def datetime_sub_def datetime_max_def
      failure_at_def iso_defs)

text \<open>
  C10, witness: of a recent failure, a failure with a malformed timestamp, a recent
  success and an old failure, the query for the last hour returns the first only.
\<close>

theorem failed_attempts_filter_witness:
  "get_failed_attempts fromisoformat 63839665800123456 1
     [failure_at ''2024-01-01T00:05:00'', failure_at ''yesterday'',
      (failure_at ''2024-01-01T00:10:00'')\<lparr>success := True\<rparr>,
      failure_at ''2023-01-15T23:00:00''] =
   Inr [failure_at ''2024-01-01T00:05:00'']"
proof -
  let ?rs = "[failure_at ''2024-01-01T00:05:00'', failure_at ''yesterday'',
      (failure_at ''2024-01-01T00:10:00'')\<lparr>success := True\<rparr>,
      failure_at ''2023-01-15T23:00:00'']"
  have p: "\<forall>r \<in> set ?rs. (\<forall>t off. fromisoformat (timestamp r) \<noteq> Inr (Aware t off)) \<and>
           (\<forall>e. fromisoformat (timestamp r) = Inl e \<longrightarrow> (\<exists>m. e = ValueError m))"
    by (simp add: failure_at_def iso_defs invalid_isoformat_def)
  show ?thesis
    using failed_attempts_filter [of 1 63839665800123456 ?rs fromisoformat, OF _ _ _ _ p]
    by (simp add: datetime_max_def in_window_def failure_at_def iso_defs invalid_isoformat_def)
qed

section \<open>Properties of the rotation job and of the client\<close>

lemma failed_since_Inr:
  "failed_since parse cutoff rs = Inr xs \<Longrightarrow>
   xs = filter (\<lambda>r. in_window parse cutoff r \<and> \<not> success r) rs"
proof (induction rs arbitrary: xs)
  case Nil
  then show ?case by simp
next
  case (Cons r rs)
  show ?case
  proof (cases "parse (timestamp r)")
    case (Inl e)
    with Cons show ?thesis
      by (cases e) (auto simp: in_window_def)
  next
    case (Inr dt)
    with Cons show ?thesis
      by (cases dt) (auto simp: in_window_def split: sum.splits)
  qed
qed

lemma get_failed_attempts_Inr:
  "get_failed_attempts parse n 1 rs = Inr xs \<Longrightarrow>
   xs = filter (\<lambda>r. in_window parse (n - 3600000000) r \<and> \<not> success r) rs"
  by (auto simp: get_failed_attempts_def timedelta_hours_def datetime_sub_def
      split: if_splits dest: failed_since_Inr)

lemma on_exception_events:
  "\<forall>ev \<in> set (snd (on_exception w e s)). \<not> contacts_server ev"
  by (auto simp: on_exception_def send_notification_def contacts_server_def Let_def)

text \<open>
  C3. When at least three records of the history are failures whose timestamps parse to
  times within the last hour, a cycle, scheduled or forced, creates no client session,
  sends no request and generates no password.
\<close>

theorem circuit_breaker:
  assumes "3 \<le> length (filter (\<lambda>r. in_window (parse_iso w) (now w - 3600000000) r \<and> \<not> success r)
                        (records (password_history s)))"
  shows "\<forall>ev \<in> set (snd (rotation_cycle trig w s)). \<not> contacts_server ev"
proof -
  have job: "\<forall>ev \<in> set (snd (change_password_job w s)). \<not> contacts_server ev"
  proof (cases "get_failed_attempts (parse_iso w) (now w) 1 (records (password_history s))")
    case (Inl e)
    then show ?thesis
      using on_exception_events [of w e s] by (simp add: change_password_job_def)
  next
    case (Inr xs)
    with assms have "3 \<le> length xs"
      using get_failed_attempts_Inr [OF Inr] by simp
    with Inr show ?thesis by (simp add: change_password_job_def)
  qed
  then show ?thesis
    by (cases trig)
      (simp_all add: force_password_change_def scheduled_password_change_def run_async_job_def)
qed

lemma changer_config:
  "changer_change_password t n cfg new = (ok, cfg1, ev) \<Longrightarrow>
   cfg1 = (if ok then cfg\<lparr>account := (account cfg)\<lparr>password := new\<rparr>\<rparr> else cfg)"
  by (auto simp: changer_change_password_def Let_def split: sum.splits prod.splits if_splits)


lemma generate_auth_code_returns:
  "b64decode secret = Some key \<Longrightarrow> 0 \<le> t \<Longrightarrow> t < 30 * 2 ^ 64 \<Longrightarrow>
   \<exists>code. generate_auth_code secret t = Inr code"
  using auth_code_refines [of t secret]
  by (simp add: spec_generate_def Let_def)

lemma sample_secret: "\<exists>key. b64decode (shared_secret (account sample_config)) = Some key"
  by (simp add: sample_config_def b64decode_def b64_value_def)

lemma sample_auth_code:
  "\<exists>code. generate_auth_code ''dGVzdF9zaGFyZWRfc2VjcmV0X2Zvcl90ZXN0aW5nXzEyMzQ1'' 1704069000 = Inr code"
proof -
  obtain key where "b64decode (shared_secret (account sample_config)) = Some key"
    using sample_secret by blast
  then show ?thesis
    using generate_auth_code_returns [of "shared_secret (account sample_config)" key 1704069000]
    by (simp add: sample_config_def)
qed

lemmas run_defs = change_password_job_def sample_world_def sample_scheduler_def sample_config_def
     get_failed_attempts_def timedelta_hours_def datetime_sub_def datetime_max_def
     generate_password_def changer_change_password_def login_def get_rsa_key_def
     extract_session_data_def client_change_password_def accepting_server_def new_client_def
     no_session_id_def add_record_def save_history_def save_config_def
     send_notification_def hash_password_def on_exception_def Let_def

text \<open>
  C5, as amended. A run that is aborted by an exception of the failure query or of the
  password generator, and a run whose password change returns \<open>False\<close>, change nothing
  but the history, to which they append one failure record: with \<open>str(e)\<close> and empty
  fingerprints in the first case, with the fixed text for an unknown error in the second.
  The configuration in memory and the configuration file are as before.
\<close>

theorem failed_attempt_record:
  "(get_failed_attempts (parse_iso w) (now w) 1 (records (password_history s)) = Inl e
      \<or> (\<exists>fa. get_failed_attempts (parse_iso w) (now w) 1 (records (password_history s)) = Inr fa
            \<and> length fa < 3
            \<and> generate_password (change_policy (config s)) (drawn_password w) = Inl e)
     \<longrightarrow> fst (change_password_job w s) =
           s\<lparr>password_history := add_record (history_write w)
               \<lparr>timestamp = now_iso w, old_password_hash = [], new_password_hash = [],
                success = False, error_message = Some (str_of e)\<rparr> (password_history s)\<rparr>)
   \<and> (\<forall>fa new cfg1 ev1.
         get_failed_attempts (parse_iso w) (now w) 1 (records (password_history s)) = Inr fa
         \<and> length fa < 3
         \<and> generate_password (change_policy (config s)) (drawn_password w) = Inr new
         \<and> changer_change_password (unixtime w) (net w) (config s) new = (False, cfg1, ev1)
     \<longrightarrow> fst (change_password_job w s) =
           s\<lparr>password_history := add_record (history_write w)
               \<lparr>timestamp = now_iso w,
                old_password_hash = hash_password w (password (account (config s))),
                new_password_hash = hash_password w new,
                success = False, error_message = Some unknown_error_text\<rparr> (password_history s)\<rparr>)"
proof (intro conjI impI allI)
  assume "get_failed_attempts (parse_iso w) (now w) 1 (records (password_history s)) = Inl e
      \<or> (\<exists>fa. get_failed_attempts (parse_iso w) (now w) 1 (records (password_history s)) = Inr fa
            \<and> length fa < 3
            \<and> generate_password (change_policy (config s)) (drawn_password w) = Inl e)"
  then show "fst (change_password_job w s) =
           s\<lparr>password_history := add_record (history_write w)
               \<lparr>timestamp = now_iso w, old_password_hash = [], new_password_hash = [],
                success = False, error_message = Some (str_of e)\<rparr> (password_history s)\<rparr>"
    by (auto simp: change_password_job_def on_exception_def Let_def)
next
  fix fa new cfg1 ev1
  assume a: "get_failed_attempts (parse_iso w) (now w) 1 (records (password_history s)) = Inr fa
         \<and> length fa < 3
         \<and> generate_password (change_policy (config s)) (drawn_password w) = Inr new
         \<and> changer_change_password (unixtime w) (net w) (config s) new = (False, cfg1, ev1)"
  then have "cfg1 = config s" using changer_config [of "unixtime w" "net w" "config s" new False cfg1 ev1] by simp
  with a show "fst (change_password_job w s) =
           s\<lparr>password_history := add_record (history_write w)
               \<lparr>timestamp = now_iso w,
                old_password_hash = hash_password w (password (account (config s))),
                new_password_hash = hash_password w new,
                success = False, error_message = Some unknown_error_text\<rparr> (password_history s)\<rparr>"
    by (simp add: change_password_job_def Let_def)
qed

lemma unknown_error_length: "length unknown_error_text = 35"
  by (simp add: unknown_error_text_def)

text \<open>
  C5, counterexample. A run whose key request raises \<open>Connection timeout\<close> and a run
  whose login succeeds and whose change is then refused leave the same error description,
  the fixed text, which is not the text of the exception.
\<close>

theorem failure_reason_not_recorded:
  "map error_message (records (password_history (fst (change_password_job
       (sample_world\<lparr>net := accepting_server\<lparr>rsa_key_reply := Raises ''Connection timeout''\<rparr>\<rparr>)
       sample_scheduler)))) = [Some unknown_error_text]
   \<and> map error_message (records (password_history (fst (change_password_job
       (sample_world\<lparr>net := accepting_server\<lparr>change_submit_reply := Returns (200, False)\<rparr>\<rparr>)
       sample_scheduler)))) = [Some unknown_error_text]
   \<and> unknown_error_text \<noteq> ''Connection timeout''"
proof -
  have "length ''Connection timeout'' \<noteq> length unknown_error_text"
    by (simp add: unknown_error_length)
  then have "unknown_error_text \<noteq> ''Connection timeout''" by metis
  then show ?thesis
    using sample_auth_code by (clarsimp simp: run_defs)
qed

text \<open>
  C5, witness: a run aborted by the \<open>TypeError\<close> of the failure query, and a run whose
  key request raises.
\<close>

theorem failed_attempt_record_witness:
  "fst (change_password_job
      (sample_world\<lparr>parse_iso := (\<lambda>ts. Inr (Aware 0 0))\<rparr>)
      (sample_scheduler\<lparr>password_history := (password_history sample_scheduler)\<lparr>records := [failure_at ''x'']\<rparr>\<rparr>)) =
     sample_scheduler\<lparr>password_history := \<lparr>history_file = Saved [failure_at ''x'',
        \<lparr>timestamp = ''2024-01-01T00:30:00.123456'', old_password_hash = [], new_password_hash = [],
         success = False,
         error_message = Some ''cannot compare offset-naive and offset-aware datetimes''\<rparr>],
       max_records = 10,
       records = [failure_at ''x'',
        \<lparr>timestamp = ''2024-01-01T00:30:00.123456'', old_password_hash = [], new_password_hash = [],
         success = False,
         error_message = Some ''cannot compare offset-naive and offset-aware datetimes''\<rparr>]\<rparr>\<rparr>
   \<and> fst (change_password_job
      (sample_world\<lparr>net := accepting_server\<lparr>rsa_key_reply := Raises ''Connection timeout''\<rparr>\<rparr>)
      sample_scheduler) =
     sample_scheduler\<lparr>password_history := \<lparr>history_file = Saved [
        \<lparr>timestamp = ''2024-01-01T00:30:00.123456'', old_password_hash = replicate 16 CHR ''0'',
         new_password_hash = replicate 16 CHR ''0'', success = False,
         error_message = Some unknown_error_text\<rparr>],
       max_records = 10,
       records = [
        \<lparr>timestamp = ''2024-01-01T00:30:00.123456'', old_password_hash = replicate 16 CHR ''0'',
         new_password_hash = replicate 16 CHR ''0'', success = False,
         error_message = Some unknown_error_text\<rparr>]\<rparr>\<rparr>"
proof -
  let ?w1 = "sample_world\<lparr>parse_iso := (\<lambda>ts. Inr (Aware 0 0))\<rparr>"
  let ?s1 = "sample_scheduler\<lparr>password_history := (password_history sample_scheduler)\<lparr>records := [failure_at ''x'']\<rparr>\<rparr>"
  let ?w2 = "sample_world\<lparr>net := accepting_server\<lparr>rsa_key_reply := Raises ''Connection timeout''\<rparr>\<rparr>"
  have a: "get_failed_attempts (parse_iso ?w1) (now ?w1) 1 (records (password_history ?s1))
      = Inl (TypeError ''cannot compare offset-naive and offset-aware datetimes'')"
    by (simp add: run_defs)
  have b: "get_failed_attempts (parse_iso ?w2) (now ?w2) 1 (records (password_history sample_scheduler)) = Inr []
     \<and> length ([] :: PasswordChangeRecord list) < 3
     \<and> generate_password (change_policy (config sample_scheduler)) (drawn_password ?w2) = Inr ''Xk9mQ2vB7nR4pT6w''
     \<and> changer_change_password (unixtime ?w2) (net ?w2) (config sample_scheduler) ''Xk9mQ2vB7nR4pT6w''
         = (False, config sample_scheduler, [SessionCreated, Post ''https://steamcommunity.com/login/getrsakey/'', SessionClosed])"
    using sample_auth_code by (clarsimp simp: run_defs)
  note t1 = failed_attempt_record [of ?w1 ?s1
      "TypeError ''cannot compare offset-naive and offset-aware datetimes''", THEN conjunct1, rule_format]
  note t2 = failed_attempt_record [of ?w2 sample_scheduler undefined, THEN conjunct2, rule_format]
  have r1: "fst (change_password_job ?w1 ?s1) =
     ?s1\<lparr>password_history := add_record (history_write ?w1)
               \<lparr>timestamp = now_iso ?w1, old_password_hash = [], new_password_hash = [],
                success = False,
                error_message = Some (str_of (TypeError ''cannot compare offset-naive and offset-aware datetimes''))\<rparr>
               (password_history ?s1)\<rparr>"
    using t1 [OF disjI1 [OF a]] .
  have r2: "fst (change_password_job ?w2 sample_scheduler) =
     sample_scheduler\<lparr>password_history := add_record (history_write ?w2)
               \<lparr>timestamp = now_iso ?w2,
                old_password_hash = hash_password ?w2 (password (account (config sample_scheduler))),
                new_password_hash = hash_password ?w2 ''Xk9mQ2vB7nR4pT6w'',
                success = False, error_message = Some unknown_error_text\<rparr>
               (password_history sample_scheduler)\<rparr>"
    using t2 [OF b] .
  show ?thesis
    unfolding r1 r2
    by (simp add: sample_world_def sample_scheduler_def sample_config_def add_record_def
        save_history_def hash_password_def)
qed

text \<open>
  C3, witness: a forced cycle at 00:30 with failures at 00:05, 00:10 and 00:20.
\<close>

theorem circuit_breaker_witness:
  "filter contacts_server (snd (rotation_cycle Forced sample_world
      (sample_scheduler\<lparr>password_history := (password_history sample_scheduler)\<lparr>records :=
         [failure_at ''2024-01-01T00:05:00'', failure_at ''2024-01-01T00:10:00'',
          failure_at ''2024-01-01T00:20:00'']\<rparr>\<rparr>))) = []"
proof -
  let ?s = "sample_scheduler\<lparr>password_history := (password_history sample_scheduler)\<lparr>records :=
         [failure_at ''2024-01-01T00:05:00'', failure_at ''2024-01-01T00:10:00'',
          failure_at ''2024-01-01T00:20:00'']\<rparr>\<rparr>"
  have "3 \<le> length (filter (\<lambda>r. in_window (parse_iso sample_world) (now sample_world - 3600000000) r \<and> \<not> success r)
                        (records (password_history ?s)))"
    by (simp add: sample_world_def sample_scheduler_def failure_at_def in_window_def
        fromisoformat_def parse_date_time_def parse_offset_def digit_value_def
        days_in_month_def days_before_year_def days_before_month_def is_leap_def)
  then have "\<forall>ev \<in> set (snd (rotation_cycle Forced sample_world ?s)). \<not> contacts_server ev"
    by (rule circuit_breaker)
  then show ?thesis by (simp add: filter_empty_conv)
qed








end
